theory Spec2Isabelle
  imports Main
begin

section \<open>Package try: elevating errors into panics and catching them again\<close>

text \<open>
  A shallow embedding of \<^verbatim>\<open>try.go\<close>. Go's \<^verbatim>\<open>panic\<close> is an outcome of a call
  beside the normal return; \<^verbatim>\<open>recover()\<close> is the value a deferred call is handed
  (\<open>None\<close> for \<^verbatim>\<open>nil\<close>, when no panic is in flight); interface values carry their
  dynamic type; assignments through \<^verbatim>\<open>*errptr\<close> and calls of the default logger are
  updates of an explicit state.
\<close>

subsection \<open>Values\<close>

type_synonym tyname = string

text \<open>
  \<^verbatim>\<open>runtime.Frame\<close>, as far as the package reads it. The array \<^verbatim>\<open>pc [1]uintptr\<close> of an
  envelope is represented by the frame that \<^verbatim>\<open>runtime.CallersFrames\<close> resolves it to;
  the zero program counter resolves to the zero frame.
\<close>

record frame =
  Function :: string
  File :: string
  Line :: int

definition zero_frame :: frame where
  "zero_frame = \<lparr>Function = [], File = [], Line = 0\<rparr>"

text \<open>
  A non-nil value of interface type \<^verbatim>\<open>error\<close> is either a value of a type declared
  outside the package or an envelope, since \<^verbatim>\<open>wrapError\<close> has an \<^verbatim>\<open>Error\<close> method
  too. Of a value from outside the package the model keeps the dynamic type, the
  identity, and what a call of its \<^verbatim>\<open>Error\<close> method does: that is code of the caller,
  which returns a text or panics (as \<^verbatim>\<open>(*fs.PathError).Error\<close> does on a nil pointer,
  which is a non-nil \<^verbatim>\<open>error\<close>).

  The struct \<^verbatim>\<open>wrapError\<close> embeds the cause and holds the captured location. Every
  envelope is built by \<^verbatim>\<open>e\<close>, which all its callers hand a non-nil error, so the
  embedded cause is a non-nil error value.

  A non-nil value of type \<^verbatim>\<open>any\<close>, as \<^verbatim>\<open>panic\<close> takes and \<^verbatim>\<open>recover\<close> returns it,
  is an error, a string or a value of another type. Converting an \<^verbatim>\<open>error\<close> or a
  \<^verbatim>\<open>wrapError\<close> to \<^verbatim>\<open>any\<close> keeps the dynamic value.
\<close>

datatype errval =
    Foreign (foreign_type: tyname) (ident: nat) (Error_method: method_result)
  | Env wrapError
and wrapError =
    WrapError (error: errval) (pc: frame)
and method_result =
    Returns string
  | Panics anyval
and anyval =
    AnErr errval
  | AString string
  | AOther tyname nat

text \<open>A value of type \<^verbatim>\<open>error\<close>: \<open>None\<close> is \<^verbatim>\<open>nil\<close>.\<close>

type_synonym err = "errval option"

datatype level = LevelDebug | LevelError

text \<open>
  The state the package acts on: the variables of error type that an \<^verbatim>\<open>errptr\<close> can
  point to, the records handed to \<^verbatim>\<open>slog.Default()\<close>, the next fresh heap identity,
  and the rest of the program's state, which only the caller's functions touch.
\<close>

record 'u state =
  vars :: "nat \<Rightarrow> err"
  logs :: "(level \<times> string) list"
  next_id :: nat
  user :: 'u

datatype ('a, 's) outcome =
    Return 'a 's
  | Panic anyval 's

subsection \<open>The language and the libraries the package calls\<close>

text \<open>
  The type argument \<^verbatim>\<open>T\<close> of \<^verbatim>\<open>Catch[T error]\<close>: a concrete type, or an interface
  type, given by the dynamic types that implement it.
\<close>

datatype ty =
    Concrete tyname
  | Iface "tyname \<Rightarrow> bool"

definition error_iface :: ty where
  "error_iface = Iface (\<lambda>_. True)"

definition wrapError_type :: tyname where
  "wrapError_type = ''try.wrapError''"

fun dyn_type :: "errval \<Rightarrow> tyname" where
  "dyn_type (Foreign t i m) = t"
| "dyn_type (Env w) = wrapError_type"

text \<open>
  The type assertion \<^verbatim>\<open>x.(T)\<close> in its comma-ok form: \<open>None\<close> when \<^verbatim>\<open>ok\<close> is false.
  It fails on a nil interface value.
\<close>

fun type_assert :: "err \<Rightarrow> ty \<Rightarrow> errval option" where
  "type_assert None T = None"
| "type_assert (Some x) (Concrete n) = (if dyn_type x = n then Some x else None)"
| "type_assert (Some x) (Iface p) = (if p (dyn_type x) then Some x else None)"

text \<open>
  The panics of the run time: a \<^verbatim>\<open>runtime.errorString\<close>, whose \<^verbatim>\<open>Error\<close> method puts
  \<^verbatim>\<open>"runtime error: "\<close> before the string, and the \<^verbatim>\<open>*runtime.TypeAssertionError\<close> of
  a type assertion in the one-result form, whose text names the types involved (the model
  names the dynamic type only).
\<close>

definition runtime_error :: "string \<Rightarrow> anyval" where
  "runtime_error s = AnErr (Foreign ''runtime.errorString'' 0 (Returns (''runtime error: '' @ s)))"

definition nil_dereference :: anyval where
  "nil_dereference = runtime_error ''invalid memory address or nil pointer dereference''"

definition failed_assertion :: "err \<Rightarrow> anyval" where
  "failed_assertion v =
     AnErr (Foreign ''*runtime.TypeAssertionError'' 0
       (Returns (''interface conversion: error is ''
          @ (case v of None \<Rightarrow> ''nil'' | Some x \<Rightarrow> dyn_type x))))"

text \<open>The assignment \<^verbatim>\<open>*errptr = v\<close>; a nil pointer panics.\<close>

definition store :: "nat option \<Rightarrow> err \<Rightarrow> 'u state \<Rightarrow> (unit, 'u state) outcome" where
  "store errptr v st =
     (case errptr of
        None \<Rightarrow> Panic nil_dereference st
      | Some a \<Rightarrow> Return () (st\<lparr>vars := (vars st)(a := v)\<rparr>))"

text \<open>\<^verbatim>\<open>slog.Default().Log(ctx, level, msg)\<close> and \<^verbatim>\<open>slog.Default().Debug(msg)\<close>.\<close>

definition slog_Log :: "level \<Rightarrow> string \<Rightarrow> 'u state \<Rightarrow> 'u state" where
  "slog_Log lv s st = st\<lparr>logs := logs st @ [(lv, s)]\<rparr>"

definition slog_Debug :: "string \<Rightarrow> 'u state \<Rightarrow> 'u state" where
  "slog_Debug s st = slog_Log LevelDebug s st"

text \<open>\<^verbatim>\<open>strconv.Itoa\<close>.\<close>

definition digit_char :: "nat \<Rightarrow> char" where
  "digit_char n = ''0123456789'' ! n"

function nat_digits :: "nat \<Rightarrow> string" where
  "nat_digits n = (if n < 10 then [digit_char n] else nat_digits (n div 10) @ [digit_char (n mod 10)])"
  by pat_completeness auto
termination
  by (relation "measure (\<lambda>n. n)") auto

definition Itoa :: "int \<Rightarrow> string" where
  "Itoa i = (if i < 0 then CHR ''-'' # nat_digits (nat (- i)) else nat_digits (nat i))"

text \<open>
  \<^verbatim>\<open>fmt.Errorf\<close> with a format that has no \<^verbatim>\<open>%w\<close>: a freshly allocated
  \<^verbatim>\<open>*errors.errorString\<close> holding the formatted text.
\<close>

definition fmt_Errorf :: "string \<Rightarrow> 'u state \<Rightarrow> errval \<times> 'u state" where
  "fmt_Errorf s st =
     (Foreign ''*errors.errorString'' (next_id st) (Returns s),
      st\<lparr>next_id := Suc (next_id st)\<rparr>)"

text \<open>
  \<^verbatim>\<open>runtime.Callers(skip, pc[:])\<close> for an array of length one. The stack lists the
  frames from the function that calls \<^verbatim>\<open>runtime.Callers\<close> outwards; frame 0 is
  \<^verbatim>\<open>runtime.Callers\<close> itself. Where the stack is too short the array keeps its zero.
\<close>

definition Callers_frame :: frame where
  "Callers_frame = \<lparr>Function = ''runtime.Callers'', File = ''runtime/extern.go'', Line = 0\<rparr>"

definition runtime_Callers :: "nat \<Rightarrow> frame list \<Rightarrow> frame" where
  "runtime_Callers skip stk =
     (case drop skip (Callers_frame # stk) of [] \<Rightarrow> zero_frame | fr # _ \<Rightarrow> fr)"

text \<open>
  A deferred call \<^verbatim>\<open>defer h(...)\<close> around a function body, where \<open>h\<close> calls
  \<^verbatim>\<open>recover()\<close> itself: \<open>h\<close> is handed nil after a normal return and the panic's
  value while a panic unwinds, which it thereby stops. What \<open>h\<close> returns or panics
  with is what the function's caller sees.
\<close>

fun defer_call ::
  "(anyval option \<Rightarrow> 's \<Rightarrow> (unit, 's) outcome) \<Rightarrow> (unit, 's) outcome \<Rightarrow> (unit, 's) outcome" where
  "defer_call h (Return u st) = h None st"
| "defer_call h (Panic v st) = h (Some v) st"




subsection \<open>The envelope\<close>

definition try_go :: string where
  "try_go = ''github.com/xtdlib/try/try.go''"

text \<open>The frame of a function of the package, stopped at a line of \<^verbatim>\<open>try.go\<close>.\<close>

definition within :: "string \<Rightarrow> int \<Rightarrow> frame" where
  "within fn ln = \<lparr>Function = fn, File = try_go, Line = ln\<rparr>"

text \<open>
  The loop of \<^verbatim>\<open>wrapError.Error\<close> that keeps the last path segment of the file name:
  \<open>last_segment file (Suc i)\<close> is the iteration at index \<open>i\<close>, counting down from
  \<open>len(file) - 1\<close>.
\<close>

fun last_segment :: "string \<Rightarrow> nat \<Rightarrow> string" where
  "last_segment file 0 = file"
| "last_segment file (Suc i) =
     (if file ! i = CHR ''/'' then drop (i + length ''/'') file else last_segment file i)"

text \<open>
  A call of the method \<^verbatim>\<open>Error\<close> on an error value: \<open>Inr\<close> the text it returns,
  \<open>Inl\<close> the value it panics with. \<^verbatim>\<open>wrapError.Error\<close> calls the method of its cause
  last, so a panic of the cause is a panic of the envelope.
\<close>

fun errval_Error :: "errval \<Rightarrow> anyval + string"
  and wrapError_Error :: "wrapError \<Rightarrow> anyval + string" where
  "errval_Error (Foreign t i m) = (case m of Returns s \<Rightarrow> Inr s | Panics v \<Rightarrow> Inl v)"
| "errval_Error (Env w) = wrapError_Error w"
| "wrapError_Error (WrapError c fr) =
     (case errval_Error c of
        Inl v \<Rightarrow> Inl v
      | Inr s \<Rightarrow>
          Inr (last_segment (File fr) (length (File fr)) @ '':'' @ Itoa (Line fr) @ '': '' @ s))"

definition wrapError_Catch :: "wrapError \<Rightarrow> err" where
  "wrapError_Catch w = Some (error w)"

definition wrapError_Unwrap :: "wrapError \<Rightarrow> err" where
  "wrapError_Unwrap w = Some (error w)"

subsection \<open>Recovering\<close>

text \<open>
  The functions that the source starts with \<^verbatim>\<open>recover()\<close> take its result as the
  argument \<open>recovered\<close>. In the envelope branch \<^verbatim>\<open>r\<close> evaluates \<^verbatim>\<open>ex.Error()\<close> for
  the trace before it calls \<open>fn\<close>.
\<close>

definition r ::
  "anyval option \<Rightarrow> (wrapError \<Rightarrow> 'u state \<Rightarrow> (unit, 'u state) outcome) \<Rightarrow> 'u state
     \<Rightarrow> (unit, 'u state) outcome" where
  "r recovered fn st =
     (case recovered of
        None \<Rightarrow> Return () st
      | Some (AnErr (Env ex)) \<Rightarrow>
          (case wrapError_Error ex of
             Inl v \<Rightarrow> Panic v st
           | Inr s \<Rightarrow> fn ex (slog_Debug (''try: caught: '' @ s) st))
      | Some ex \<Rightarrow> Panic ex st)"

text \<open>\<^verbatim>\<open>panic("try: caught error of wrong type: " + w.error.Error())\<close>.\<close>

definition wrong_type :: "wrapError \<Rightarrow> 's \<Rightarrow> ('a, 's) outcome" where
  "wrong_type w st =
     (case errval_Error (error w) of
        Inl v \<Rightarrow> Panic v st
      | Inr s \<Rightarrow> Panic (AString (''try: caught error of wrong type: '' @ s)) st)"

definition Catch :: "ty \<Rightarrow> nat option \<Rightarrow> anyval option \<Rightarrow> 'u state \<Rightarrow> (unit, 'u state) outcome" where
  "Catch T errptr recovered st =
     r recovered
       (\<lambda>w st'. case type_assert (Some (error w)) T of
                  Some x \<Rightarrow> store errptr (Some x) st'
                | None \<Rightarrow> wrong_type w st')
       st"

text \<open>
  \<^verbatim>\<open>CatchF\<close> asserts the type twice, the second time in the one-result form, which
  panics when it fails, and tests the cause against nil before it calls \<open>fn\<close>.
\<close>

definition CatchF ::
  "ty \<Rightarrow> nat option \<Rightarrow> ('u state \<Rightarrow> (unit, 'u state) outcome) \<Rightarrow> anyval option \<Rightarrow> 'u state
     \<Rightarrow> (unit, 'u state) outcome" where
  "CatchF T errptr fn recovered st =
     r recovered
       (\<lambda>w st'. case type_assert (Some (error w)) T of
                  Some _ \<Rightarrow>
                    (case type_assert (Some (error w)) T of
                       None \<Rightarrow> Panic (failed_assertion (Some (error w))) st'
                     | Some x \<Rightarrow>
                         (case store errptr (Some x) st' of
                            Panic v s \<Rightarrow> Panic v s
                          | Return _ s \<Rightarrow> if Some (error w) \<noteq> None then fn s else Return () s))
                | None \<Rightarrow> wrong_type w st')
       st"

definition f ::
  "(anyval list \<Rightarrow> 'u state \<Rightarrow> (unit, 'u state) outcome) \<Rightarrow> wrapError \<Rightarrow> 'u state
     \<Rightarrow> (unit, 'u state) outcome" where
  "f fn w st = fn [AnErr (Env w)] st"

definition F ::
  "(anyval list \<Rightarrow> 'u state \<Rightarrow> (unit, 'u state) outcome) \<Rightarrow> anyval option \<Rightarrow> 'u state
     \<Rightarrow> (unit, 'u state) outcome" where
  "F fn recovered st = r recovered (\<lambda>w. f fn w) st"

subsection \<open>Elevating\<close>

text \<open>
  The functions that reach \<^verbatim>\<open>runtime.Callers\<close> take the stack of their caller: its
  head is the frame of the function that holds the call, stopped at the line of the call.
\<close>

definition e :: "errval \<Rightarrow> frame list \<Rightarrow> 's \<Rightarrow> ('a, 's) outcome" where
  "e x stk st =
     (let we = WrapError x (runtime_Callers 3 (within ''try.e'' 233 # stk))
      in Panic (AnErr (Env we)) st)"

text \<open>A statement that may panic, followed by the rest of the function body.\<close>

definition and_then :: "(unit, 's) outcome \<Rightarrow> ('s \<Rightarrow> ('a, 's) outcome) \<Rightarrow> ('a, 's) outcome" where
  "and_then m k = (case m of Return _ s \<Rightarrow> k s | Panic v s \<Rightarrow> Panic v s)"

definition E :: "err \<Rightarrow> frame list \<Rightarrow> 's \<Rightarrow> (unit, 's) outcome" where
  "E err stk st =
     and_then (case err of None \<Rightarrow> Return () st | Some x \<Rightarrow> e x (within ''try.E'' 240 # stk) st)
       (Return ())"

definition E1 :: "'a \<Rightarrow> err \<Rightarrow> frame list \<Rightarrow> 's \<Rightarrow> ('a, 's) outcome" where
  "E1 a err stk st =
     and_then (case err of None \<Rightarrow> Return () st | Some x \<Rightarrow> e x (within ''try.E1'' 248 # stk) st)
       (Return a)"

definition E2 :: "'a \<Rightarrow> 'b \<Rightarrow> err \<Rightarrow> frame list \<Rightarrow> 's \<Rightarrow> ('a \<times> 'b, 's) outcome" where
  "E2 a b err stk st =
     and_then (case err of None \<Rightarrow> Return () st | Some x \<Rightarrow> e x (within ''try.E2'' 257 # stk) st)
       (Return (a, b))"

definition E3 :: "'a \<Rightarrow> 'b \<Rightarrow> 'c \<Rightarrow> err \<Rightarrow> frame list \<Rightarrow> 's \<Rightarrow> ('a \<times> 'b \<times> 'c, 's) outcome" where
  "E3 a b c err stk st =
     and_then (case err of None \<Rightarrow> Return () st | Some x \<Rightarrow> e x (within ''try.E3'' 266 # stk) st)
       (Return (a, b, c))"

definition E4 ::
  "'a \<Rightarrow> 'b \<Rightarrow> 'c \<Rightarrow> 'd \<Rightarrow> err \<Rightarrow> frame list \<Rightarrow> 's \<Rightarrow> ('a \<times> 'b \<times> 'c \<times> 'd, 's) outcome" where
  "E4 a b c d err stk st =
     and_then (case err of None \<Rightarrow> Return () st | Some x \<Rightarrow> e x (within ''try.E4'' 275 # stk) st)
       (Return (a, b, c, d))"

subsection \<open>Logging and propagating\<close>

text \<open>
  \<^verbatim>\<open>slog.Default().Log(context.Background(), slog.LevelError, err.Error())\<close>: the
  argument \<^verbatim>\<open>err.Error()\<close> is evaluated first.
\<close>

definition log_error :: "errval \<Rightarrow> 'u state \<Rightarrow> (unit, 'u state) outcome" where
  "log_error x st =
     (case errval_Error x of
        Inl v \<Rightarrow> Panic v st
      | Inr s \<Rightarrow> Return () (slog_Log LevelError s st))"

definition L :: "err \<Rightarrow> 'u state \<Rightarrow> (unit, 'u state) outcome" where
  "L err st =
     and_then (case err of None \<Rightarrow> Return () st | Some x \<Rightarrow> log_error x st) (Return ())"

definition L1 :: "'a \<Rightarrow> err \<Rightarrow> 'u state \<Rightarrow> ('a, 'u state) outcome" where
  "L1 a err st =
     and_then (case err of None \<Rightarrow> Return () st | Some x \<Rightarrow> log_error x st) (Return a)"

definition L2 :: "'a \<Rightarrow> 'b \<Rightarrow> err \<Rightarrow> 'u state \<Rightarrow> ('a \<times> 'b, 'u state) outcome" where
  "L2 a b err st =
     and_then (case err of None \<Rightarrow> Return () st | Some x \<Rightarrow> log_error x st) (Return (a, b))"

definition L3 :: "'a \<Rightarrow> 'b \<Rightarrow> 'c \<Rightarrow> err \<Rightarrow> 'u state \<Rightarrow> ('a \<times> 'b \<times> 'c, 'u state) outcome" where
  "L3 a b c err st =
     and_then (case err of None \<Rightarrow> Return () st | Some x \<Rightarrow> log_error x st) (Return (a, b, c))"

definition L4 ::
  "'a \<Rightarrow> 'b \<Rightarrow> 'c \<Rightarrow> 'd \<Rightarrow> err \<Rightarrow> 'u state \<Rightarrow> ('a \<times> 'b \<times> 'c \<times> 'd, 'u state) outcome" where
  "L4 a b c d err st =
     and_then (case err of None \<Rightarrow> Return () st | Some x \<Rightarrow> log_error x st)
       (Return (a, b, c, d))"

text \<open>\<^verbatim>\<open>panic(err)\<close> converts the error to \<^verbatim>\<open>any\<close>: the dynamic value stays.\<close>

definition M :: "err \<Rightarrow> 's \<Rightarrow> (unit, 's) outcome" where
  "M err st = (case err of Some x \<Rightarrow> Panic (AnErr x) st | None \<Rightarrow> Return () st)"

definition M1 :: "'a \<Rightarrow> err \<Rightarrow> 's \<Rightarrow> ('a, 's) outcome" where
  "M1 a err st = (case err of Some x \<Rightarrow> Panic (AnErr x) st | None \<Rightarrow> Return a st)"

definition M2 :: "'a \<Rightarrow> 'b \<Rightarrow> err \<Rightarrow> 's \<Rightarrow> ('a \<times> 'b, 's) outcome" where
  "M2 a b err st = (case err of Some x \<Rightarrow> Panic (AnErr x) st | None \<Rightarrow> Return (a, b) st)"

definition M3 :: "'a \<Rightarrow> 'b \<Rightarrow> 'c \<Rightarrow> err \<Rightarrow> 's \<Rightarrow> ('a \<times> 'b \<times> 'c, 's) outcome" where
  "M3 a b c err st = (case err of Some x \<Rightarrow> Panic (AnErr x) st | None \<Rightarrow> Return (a, b, c) st)"

definition M4 :: "'a \<Rightarrow> 'b \<Rightarrow> 'c \<Rightarrow> 'd \<Rightarrow> err \<Rightarrow> 's \<Rightarrow> ('a \<times> 'b \<times> 'c \<times> 'd, 's) outcome" where
  "M4 a b c d err st =
     (case err of Some x \<Rightarrow> Panic (AnErr x) st | None \<Rightarrow> Return (a, b, c, d) st)"

subsection \<open>Assertions\<close>

text \<open>
  The operator \<^verbatim>\<open>==\<close> of Go at the type argument \<^verbatim>\<open>T comparable\<close> is the parameter
  \<open>go_eq\<close>: \<open>Inr\<close> its result, which need not agree with identity (a floating-point
  NaN differs from itself), and \<open>Inl\<close> the run-time panic of comparing two interface
  values of the same uncomparable dynamic type. \<^verbatim>\<open>a != b\<close> is the negation of
  \<^verbatim>\<open>a == b\<close>. \<open>fmtv\<close> is what the verb \<^verbatim>\<open>%+v\<close> prints for a value of \<^verbatim>\<open>T\<close>, and
  \<open>zero\<close> is the zero value that \<^verbatim>\<open>var b T\<close> declares. These four functions stand
  below the directive \<^verbatim>\<open>//line try.go:1\<close> of line 286, so the lines of their frames
  count from there.
\<close>

definition Equal ::
  "('a \<Rightarrow> 'a \<Rightarrow> anyval + bool) \<Rightarrow> ('a \<Rightarrow> string) \<Rightarrow> 'a \<Rightarrow> 'a \<Rightarrow> frame list \<Rightarrow> 'u state
     \<Rightarrow> (unit, 'u state) outcome" where
  "Equal go_eq fmtv a b stk st =
     and_then
       (case go_eq a b of
          Inl v \<Rightarrow> Panic v st
        | Inr same \<Rightarrow>
            if \<not> same
            then (case fmt_Errorf (''try: not equal: '' @ fmtv a @ '' != '' @ fmtv b) st of
                    (x, st') \<Rightarrow> e x (within ''try.Equal'' (362 - 286) # stk) st')
            else Return () st)
       (Return ())"

definition NotEqual ::
  "('a \<Rightarrow> 'a \<Rightarrow> anyval + bool) \<Rightarrow> ('a \<Rightarrow> string) \<Rightarrow> 'a \<Rightarrow> 'a \<Rightarrow> frame list \<Rightarrow> 'u state
     \<Rightarrow> (unit, 'u state) outcome" where
  "NotEqual go_eq fmtv a b stk st =
     and_then
       (case go_eq a b of
          Inl v \<Rightarrow> Panic v st
        | Inr same \<Rightarrow>
            if same
            then (case fmt_Errorf (''try: equal: '' @ fmtv a @ '' == '' @ fmtv b) st of
                    (x, st') \<Rightarrow> e x (within ''try.NotEqual'' (368 - 286) # stk) st')
            else Return () st)
       (Return ())"

definition Zero ::
  "('a \<Rightarrow> 'a \<Rightarrow> anyval + bool) \<Rightarrow> ('a \<Rightarrow> string) \<Rightarrow> 'a \<Rightarrow> 'a \<Rightarrow> frame list \<Rightarrow> 'u state
     \<Rightarrow> (unit, 'u state) outcome" where
  "Zero go_eq fmtv zero a stk st =
     (let b = zero in
      and_then
        (case go_eq a b of
           Inl v \<Rightarrow> Panic v st
         | Inr same \<Rightarrow>
             if \<not> same
             then (case fmt_Errorf (''try: zero: '' @ fmtv a @ '' == '' @ fmtv b) st of
                     (x, st') \<Rightarrow> e x (within ''try.Zero'' (375 - 286) # stk) st')
             else Return () st)
        (Return ()))"

definition NotZero ::
  "('a \<Rightarrow> 'a \<Rightarrow> anyval + bool) \<Rightarrow> ('a \<Rightarrow> string) \<Rightarrow> 'a \<Rightarrow> 'a \<Rightarrow> frame list \<Rightarrow> 'u state
     \<Rightarrow> (unit, 'u state) outcome" where
  "NotZero go_eq fmtv zero a stk st =
     (let b = zero in
      and_then
        (case go_eq a b of
           Inl v \<Rightarrow> Panic v st
         | Inr same \<Rightarrow>
             if same
             then (case fmt_Errorf (''try: zero: '' @ fmtv a @ '' == '' @ fmtv b) st of
                     (x, st') \<Rightarrow> e x (within ''try.NotZero'' (382 - 286) # stk) st')
             else Return () st)
        (Return ()))"

text \<open>
  The comparison at \<^verbatim>\<open>T = int\<close>, and at \<^verbatim>\<open>T = any\<close> for three kinds of dynamic
  values: an \<^verbatim>\<open>int\<close>, the \<^verbatim>\<open>float64\<close> NaN, and a slice \<^verbatim>\<open>[]int\<close>, whose type is not
  comparable. Values of different dynamic types are unequal.
\<close>

definition int_eq :: "int \<Rightarrow> int \<Rightarrow> anyval + bool" where
  "int_eq a b = Inr (a = b)"

datatype dynamic = DInt int | DNaN | DInts "int list"

fun any_eq :: "dynamic \<Rightarrow> dynamic \<Rightarrow> anyval + bool" where
  "any_eq (DInt a) (DInt b) = Inr (a = b)"
| "any_eq DNaN DNaN = Inr False"
| "any_eq (DInts xs) (DInts ys) = Inl (runtime_error ''comparing uncomparable type []int'')"
| "any_eq a b = Inr False"

fun any_fmt :: "dynamic \<Rightarrow> string" where
  "any_fmt (DInt a) = Itoa a"
| "any_fmt DNaN = ''NaN''"
| "any_fmt (DInts xs) = ''['' @ concat (map Itoa xs) @ '']''"

subsection \<open>Notions the properties are stated with\<close>

text \<open>The panic values that the type switch of \<^verbatim>\<open>r\<close> takes for envelopes.\<close>

fun is_envelope :: "anyval \<Rightarrow> bool" where
  "is_envelope (AnErr (Env w)) = True"
| "is_envelope v = False"

text \<open>
  The state after \<^verbatim>\<open>r\<close> has traced the envelope it recovered; there is no trace when
  the \<^verbatim>\<open>Error\<close> method panics.
\<close>

definition caught :: "wrapError \<Rightarrow> 'u state \<Rightarrow> 'u state" where
  "caught w st =
     (case wrapError_Error w of
        Inl v \<Rightarrow> st
      | Inr s \<Rightarrow> slog_Debug (''try: caught: '' @ s) st)"

text \<open>
  The value that \<^verbatim>\<open>Catch\<close> and \<^verbatim>\<open>CatchF\<close> panic with when the type assertion fails:
  the message, or what the \<^verbatim>\<open>Error\<close> method of the cause panicked with.
\<close>

definition abort_value :: "wrapError \<Rightarrow> anyval" where
  "abort_value w =
     (case errval_Error (error w) of
        Inl v \<Rightarrow> v
      | Inr s \<Rightarrow> AString (''try: caught error of wrong type: '' @ s))"

text \<open>The location held by the envelope that an outcome unwinds with, if it does.\<close>

fun location_of :: "('a, 's) outcome \<Rightarrow> frame option" where
  "location_of (Panic (AnErr (Env w)) s) = Some (pc w)"
| "location_of out = None"

text \<open>The frame that holds the call of a function, given the stack of its caller.\<close>

definition call_site :: "frame list \<Rightarrow> frame" where
  "call_site stk = (case stk of [] \<Rightarrow> zero_frame | site # _ \<Rightarrow> site)"

subsection \<open>The demonstration program and other concrete inputs\<close>

text \<open>
  The first \<^verbatim>\<open>main\<close> package of the repository: \<^verbatim>\<open>failfunc\<close> defers
  \<^verbatim>\<open>try.Catch(&ferr)\<close> and calls \<^verbatim>\<open>fpanic\<close>, which elevates the sentinel \<^verbatim>\<open>Err1\<close>.
  The named result \<^verbatim>\<open>ferr\<close> lives at the address \<open>ferr\<close> and starts as nil.
\<close>

definition Err1 :: errval where
  "Err1 = Foreign ''*errors.errorString'' 1 (Returns ''Err1'')"


definition main_go :: string where
  "main_go = ''github.com/xtdlib/try/cmd/main.go''"

definition main_frame :: "string \<Rightarrow> int \<Rightarrow> frame" where
  "main_frame fn ln = \<lparr>Function = fn, File = main_go, Line = ln\<rparr>"



definition start :: "nat state" where
  "start = \<lparr>vars = (\<lambda>_. None), logs = [], next_id = 0, user = 0\<rparr>"

definition EOF :: errval where
  "EOF = Foreign ''*errors.errorString'' 2 (Returns ''EOF'')"

definition ErrUnexpectedEOF :: errval where
  "ErrUnexpectedEOF = Foreign ''*errors.errorString'' 3 (Returns ''unexpected EOF'')"

text \<open>
  A nil pointer of type \<^verbatim>\<open>*fs.PathError\<close> held in an \<^verbatim>\<open>error\<close>: the interface value
  is not nil, and its \<^verbatim>\<open>Error\<close> method dereferences the pointer.
\<close>

definition nil_PathError :: errval where
  "nil_PathError = Foreign ''*fs.PathError'' 0 (Panics nil_dereference)"

text \<open>
  The follow-up function of the package comment, which turns \<^verbatim>\<open>io.EOF\<close> in the
  variable at \<open>a\<close> into \<^verbatim>\<open>io.ErrUnexpectedEOF\<close>; it also counts its calls.
\<close>

definition follow_up :: "nat \<Rightarrow> nat state \<Rightarrow> (unit, nat state) outcome" where
  "follow_up a st =
     Return ()
       (st\<lparr>vars := (vars st)(a := (if vars st a = Some EOF then Some ErrUnexpectedEOF else vars st a)),
           user := Suc (user st)\<rparr>)"

text \<open>The envelope that \<^verbatim>\<open>fpanic\<close> unwinds with, and envelopes of other causes.\<close>

definition demo_envelope :: wrapError where
  "demo_envelope = WrapError Err1 (main_frame ''main.fpanic'' 39)"


definition nil_envelope :: wrapError where
  "nil_envelope = WrapError nil_PathError (main_frame ''main.fpanic'' 39)"



section \<open>Properties\<close>

subsection \<open>Auxiliary facts\<close>

lemma r_nil: "r None k st = Return () st"
  by (simp add: r_def)

lemma r_envelope:
  "wrapError_Error w = Inr s \<Longrightarrow> r (Some (AnErr (Env w))) k st = k w (caught w st)"
  by (simp add: r_def caught_def)

lemma r_envelope_panics:
  "wrapError_Error w = Inl v \<Longrightarrow> r (Some (AnErr (Env w))) k st = Panic v st"
  by (simp add: r_def)

lemma r_foreign: "\<not> is_envelope v \<Longrightarrow> r (Some v) k st = Panic v st"
  by (cases v rule: is_envelope.cases) (simp_all add: r_def)

lemma wrapError_Error_Inr:
  "errval_Error (error w) = Inr s \<Longrightarrow>
   wrapError_Error w
     = Inr (last_segment (File (pc w)) (length (File (pc w))) @ '':'' @ Itoa (Line (pc w)) @ '': '' @ s)"
  by (cases w) simp

lemma wrapError_Error_Inl: "errval_Error (error w) = Inl v \<Longrightarrow> wrapError_Error w = Inl v"
  by (cases w) simp

lemma Callers_3: "runtime_Callers 3 (fr1 # fr2 # stk) = call_site stk"
  by (simp add: runtime_Callers_def call_site_def numeral_3_eq_3)

lemma e_captures: "e x (fr # stk) st = Panic (AnErr (Env (WrapError x (call_site stk)))) st"
  by (simp add: e_def Callers_3)

lemma call_site_Cons: "call_site (site # stk) = site"
  by (simp add: call_site_def)

lemma type_assert_error_iface: "type_assert (Some x) error_iface = Some x"
  by (simp add: error_iface_def)


lemma E_Some: "E (Some x) stk st = Panic (AnErr (Env (WrapError x (call_site stk)))) st"
  by (simp add: E_def and_then_def e_captures)

lemma vars_caught: "vars (caught w st) = vars st"
  by (simp add: caught_def slog_Debug_def slog_Log_def split: sum.split)


lemma caught_panics: "wrapError_Error w = Inl v \<Longrightarrow> caught w st = st"
  by (simp add: caught_def)

lemma Catch_envelope_ok:
  "errval_Error (error w) = Inr s \<Longrightarrow> type_assert (Some (error w)) T = Some c \<Longrightarrow>
   Catch T (Some a) (Some (AnErr (Env w))) st
     = Return () ((caught w st)\<lparr>vars := (vars st)(a := Some c)\<rparr>)"
  by (simp add: Catch_def r_envelope [OF wrapError_Error_Inr] store_def vars_caught)

lemma Catch_envelope_wrong:
  "errval_Error (error w) = Inr s \<Longrightarrow> type_assert (Some (error w)) T = None \<Longrightarrow>
   Catch T errptr (Some (AnErr (Env w))) st
     = Panic (AString (''try: caught error of wrong type: '' @ s)) (caught w st)"
  by (simp add: Catch_def r_envelope [OF wrapError_Error_Inr] wrong_type_def)

lemma CatchF_envelope_wrong:
  "errval_Error (error w) = Inr s \<Longrightarrow> type_assert (Some (error w)) T = None \<Longrightarrow>
   CatchF T errptr fn (Some (AnErr (Env w))) st
     = Panic (AString (''try: caught error of wrong type: '' @ s)) (caught w st)"
  by (simp add: CatchF_def r_envelope [OF wrapError_Error_Inr] wrong_type_def)


lemma Catch_Error_panics:
  "errval_Error (error w) = Inl v \<Longrightarrow> Catch T errptr (Some (AnErr (Env w))) st = Panic v st"
  by (simp add: Catch_def r_envelope_panics [OF wrapError_Error_Inl])

lemma CatchF_Error_panics:
  "errval_Error (error w) = Inl v \<Longrightarrow> CatchF T errptr fn (Some (AnErr (Env w))) st = Panic v st"
  by (simp add: CatchF_def r_envelope_panics [OF wrapError_Error_Inl])

lemma Catch_foreign: "\<not> is_envelope v \<Longrightarrow> Catch T errptr (Some v) st = Panic v st"
  by (simp add: Catch_def r_foreign)

lemma CatchF_foreign: "\<not> is_envelope v \<Longrightarrow> CatchF T errptr fn (Some v) st = Panic v st"
  by (simp add: CatchF_def r_foreign)

lemma F_foreign: "\<not> is_envelope v \<Longrightarrow> F sink (Some v) st = Panic v st"
  by (simp add: F_def r_foreign)

lemma Err1_text: "errval_Error (error demo_envelope) = Inr ''Err1''"
  by (simp add: demo_envelope_def Err1_def)

lemma Catch_demo_envelope:
  "Catch error_iface (Some a) (Some (AnErr (Env demo_envelope))) st
     = Return () ((caught demo_envelope st)\<lparr>vars := (vars st)(a := Some Err1)\<rparr>)"
proof -
  have "type_assert (Some (error demo_envelope)) error_iface = Some Err1"
    by (simp add: type_assert_error_iface demo_envelope_def)
  then show ?thesis
    by (rule Catch_envelope_ok [OF Err1_text])
qed

lemma nil_PathError_panics: "errval_Error nil_PathError = Inl nil_dereference"
  by (simp add: nil_PathError_def)

lemma nil_dereference_foreign: "\<not> is_envelope nil_dereference"
  by (simp add: nil_dereference_def runtime_error_def)


lemma Catch_E_slot:
  "errval_Error x = Inr s \<Longrightarrow>
   defer_call (Catch error_iface (Some p)) (E (Some x) stk st)
     = Return () ((caught (WrapError x (call_site stk)) st)\<lparr>vars := (vars st)(p := Some x)\<rparr>)"
  by (simp add: E_Some Catch_envelope_ok type_assert_error_iface)

text \<open>The envelopes are the panic values that \<^verbatim>\<open>E\<close> raises.\<close>

lemma is_envelope_iff_elevated: "is_envelope v \<longleftrightarrow> (\<exists>x stk. E (Some x) stk st = Panic v st)"
proof
  assume "is_envelope v"
  then obtain x fr where "v = AnErr (Env (WrapError x fr))"
    by (cases v rule: is_envelope.cases) (auto intro: wrapError.exhaust)
  then have "E (Some x) [fr] st = Panic v st"
    by (simp add: E_Some call_site_Cons)
  then show "\<exists>x stk. E (Some x) stk st = Panic v st"
    by blast
next
  assume "\<exists>x stk. E (Some x) stk st = Panic v st"
  then show "is_envelope v"
    by (auto simp: E_Some)
qed

subsection \<open>Elevating with a nil error\<close>

text \<open>
  Claim C2. With a nil error each of \<^verbatim>\<open>E\<close>, \<^verbatim>\<open>E1\<close>, ..., \<^verbatim>\<open>E4\<close> returns normally,
  with the values it was given and the state as it was.
\<close>

theorem E_nil_returns_values:
  "E None stk st = Return () st
   \<and> E1 a None stk st = Return a st
   \<and> E2 a b None stk st = Return (a, b) st
   \<and> E3 a b c None stk st = Return (a, b, c) st
   \<and> E4 a b c d None stk st = Return (a, b, c, d) st"
  by (simp add: E_def E1_def E2_def E3_def E4_def and_then_def)

subsection \<open>What the dispatcher leaves alone\<close>

text \<open>
  Claim C4. A panic value that is not an envelope is raised again by \<^verbatim>\<open>r\<close>, and so
  by \<^verbatim>\<open>Catch\<close>, \<^verbatim>\<open>CatchF\<close> and \<^verbatim>\<open>F\<close>, as the same value and with the state as it
  was; a handler \<open>h\<close> deferred further out is handed exactly that value.
\<close>

theorem foreign_panic_raised_again:
  assumes "\<not> is_envelope v"
  shows "r (Some v) k st = Panic v st
   \<and> Catch T errptr (Some v) st = Panic v st
   \<and> CatchF T errptr fn (Some v) st = Panic v st
   \<and> F sink (Some v) st = Panic v st
   \<and> defer_call h (defer_call (Catch T errptr) (Panic v st)) = h (Some v) st
   \<and> defer_call h (defer_call (CatchF T errptr fn) (Panic v st)) = h (Some v) st
   \<and> defer_call h (defer_call (F sink) (Panic v st)) = h (Some v) st"
  using assms by (simp add: r_foreign Catch_foreign CatchF_foreign F_foreign)

theorem foreign_panic_raised_again_witness:
  "\<not> is_envelope (AString ''this is a panic'')
   \<and> Catch error_iface (Some 0) (Some (AString ''this is a panic'')) start
       = Panic (AString ''this is a panic'') start
   \<and> defer_call (F (\<lambda>args. Return ()))
         (defer_call (Catch error_iface (Some 0)) (Panic (AString ''this is a panic'') start))
       = Panic (AString ''this is a panic'') start"
proof -
  let ?v = "AString ''this is a panic''"
  let ?outer = "F (\<lambda>args. Return ()) :: anyval option \<Rightarrow> nat state \<Rightarrow> (unit, nat state) outcome"
  have h: "\<not> is_envelope ?v"
    by simp
  note c = foreign_panic_raised_again [OF h, where k = "\<lambda>w. Return ()" and st = start
      and T = error_iface and errptr = "Some 0" and fn = "follow_up 0"
      and sink = "\<lambda>args. Return ()" and h = ?outer]
  have 1: "Catch error_iface (Some 0) (Some ?v) start = Panic ?v start"
    using c by (elim conjE)
  have 2: "F (\<lambda>args. Return ()) (Some ?v) start = Panic ?v start"
    using c by (elim conjE)
  have 3: "defer_call ?outer (defer_call (Catch error_iface (Some 0)) (Panic ?v start))
      = ?outer (Some ?v) start"
    using c by (elim conjE)
  show ?thesis
    using h 1 2 3 by simp
qed

text \<open>
  Claim C5. With nil recovered, \<^verbatim>\<open>r\<close> returns normally without calling its
  continuation, and \<^verbatim>\<open>Catch\<close>, \<^verbatim>\<open>CatchF\<close> and \<^verbatim>\<open>F\<close> return normally with the state,
  and so the variable behind \<^verbatim>\<open>errptr\<close>, as it was; the follow-up function and the
  sink are not called.
\<close>

theorem nil_recovered_is_noop:
  "r None k st = Return () st
   \<and> Catch T errptr None st = Return () st
   \<and> CatchF T errptr fn None st = Return () st
   \<and> F sink None st = Return () st
   \<and> defer_call (Catch T errptr) (Return () st) = Return () st
   \<and> defer_call (CatchF T errptr fn) (Return () st) = Return () st
   \<and> defer_call (F sink) (Return () st) = Return () st"
  by (simp add: Catch_def CatchF_def F_def r_nil)

subsection \<open>Propagating and logging\<close>

text \<open>
  Claim C6, as the code has it. With a non-nil error each of \<^verbatim>\<open>M\<close>, \<^verbatim>\<open>M1\<close>, ...,
  \<^verbatim>\<open>M4\<close> panics with the error value itself, adding no envelope; when that value is
  not itself an envelope, \<^verbatim>\<open>r\<close> and a deferred \<^verbatim>\<open>Catch\<close>, \<^verbatim>\<open>CatchF\<close> or \<^verbatim>\<open>F\<close> raise
  the panic again; with a nil error the functions return their values.
\<close>

theorem M_panics_with_raw_error:
  "M (Some x) st = Panic (AnErr x) st
   \<and> M1 a (Some x) st = Panic (AnErr x) st
   \<and> M2 a b (Some x) st = Panic (AnErr x) st
   \<and> M3 a b c (Some x) st = Panic (AnErr x) st
   \<and> M4 a b c d (Some x) st = Panic (AnErr x) st
   \<and> (\<not> is_envelope (AnErr x) \<longrightarrow>
        r (Some (AnErr x)) k st' = Panic (AnErr x) st'
        \<and> defer_call (Catch T errptr) (Panic (AnErr x) st') = Panic (AnErr x) st'
        \<and> defer_call (CatchF T errptr fn) (Panic (AnErr x) st') = Panic (AnErr x) st'
        \<and> defer_call (F sink) (Panic (AnErr x) st') = Panic (AnErr x) st')
   \<and> M None st = Return () st
   \<and> M1 a None st = Return a st
   \<and> M2 a b None st = Return (a, b) st
   \<and> M3 a b c None st = Return (a, b, c) st
   \<and> M4 a b c d None st = Return (a, b, c, d) st"
  by (simp add: M_def M1_def M2_def M3_def M4_def r_foreign Catch_foreign CatchF_foreign F_foreign)

theorem M_panics_with_raw_error_witness:
  "\<not> is_envelope (AnErr Err1)
   \<and> M (Some Err1) start = Panic (AnErr Err1) start
   \<and> defer_call (Catch error_iface (Some 0)) (M (Some Err1) start) = Panic (AnErr Err1) start"
proof -
  have h: "\<not> is_envelope (AnErr Err1)"
    by (simp add: Err1_def)
  note c = M_panics_with_raw_error [where x = Err1 and st = start and a = "()" and b = "()"
      and c = "()" and d = "()" and k = "\<lambda>w. Return ()" and st' = start and T = error_iface
      and errptr = "Some 0" and fn = "follow_up 0" and sink = "\<lambda>args. Return ()"]
  have m: "M (Some Err1) start = Panic (AnErr Err1) start"
    using c by (rule conjunct1)
  have "\<not> is_envelope (AnErr Err1) \<longrightarrow>
      r (Some (AnErr Err1)) (\<lambda>w. Return ()) start = Panic (AnErr Err1) start
      \<and> defer_call (Catch error_iface (Some 0)) (Panic (AnErr Err1) start) = Panic (AnErr Err1) start
      \<and> defer_call (CatchF error_iface (Some 0) (follow_up 0)) (Panic (AnErr Err1) start)
          = Panic (AnErr Err1) start
      \<and> defer_call (F (\<lambda>args. Return ())) (Panic (AnErr Err1) start) = Panic (AnErr Err1) start"
    using c by (elim conjE)
  with h have "defer_call (Catch error_iface (Some 0)) (Panic (AnErr Err1) start)
      = Panic (AnErr Err1) start"
    by (elim impE conjE)
  then show ?thesis
    using h by (simp only: m simp_thms)
qed

text \<open>
  The unrestricted statement fails for an error whose dynamic value is an envelope, such as
  the value that \<^verbatim>\<open>recover()\<close> returned for an earlier elevation: \<^verbatim>\<open>M\<close> panics with
  that envelope, and a deferred \<^verbatim>\<open>Catch\<close> takes it for an elevated error, stores its
  cause and returns normally.
\<close>

theorem M_of_envelope_is_caught:
  "M (Some (Env demo_envelope)) start = Panic (AnErr (Env demo_envelope)) start
   \<and> defer_call (Catch error_iface (Some 0)) (M (Some (Env demo_envelope)) start)
       = Return () ((caught demo_envelope start)\<lparr>vars := (vars start)(0 := Some Err1)\<rparr>)
   \<and> defer_call (Catch error_iface (Some 0)) (M (Some (Env demo_envelope)) start)
       \<noteq> Panic (AnErr (Env demo_envelope)) start"
  by (simp add: M_def Catch_demo_envelope)


lemma abort_value_Inr:
  "errval_Error (error w) = Inr s \<Longrightarrow> abort_value w = AString (''try: caught error of wrong type: '' @ s)"
  by (simp add: abort_value_def)

lemma wrong_type_abort: "wrong_type w st = Panic (abort_value w) st"
  by (simp add: wrong_type_def abort_value_def split: sum.split)

lemma abort_value_Inl: "errval_Error (error w) = Inl v \<Longrightarrow> abort_value w = v"
  by (simp add: abort_value_def)

lemma Catch_fails_check:
  "type_assert (Some (error w)) T = None \<Longrightarrow>
   Catch T errptr (Some (AnErr (Env w))) st = Panic (abort_value w) (caught w st)"
proof (cases "errval_Error (error w)")
  case (Inl v)
  then show ?thesis
    by (simp add: Catch_Error_panics abort_value_Inl caught_panics [OF wrapError_Error_Inl])
next
  case (Inr s)
  assume "type_assert (Some (error w)) T = None"
  with Inr show ?thesis
    by (simp add: Catch_envelope_wrong abort_value_Inr)
qed

lemma CatchF_fails_check:
  "type_assert (Some (error w)) T = None \<Longrightarrow>
   CatchF T errptr fn (Some (AnErr (Env w))) st = Panic (abort_value w) (caught w st)"
proof (cases "errval_Error (error w)")
  case (Inl v)
  then show ?thesis
    by (simp add: CatchF_Error_panics abort_value_Inl caught_panics [OF wrapError_Error_Inl])
next
  case (Inr s)
  assume "type_assert (Some (error w)) T = None"
  with Inr show ?thesis
    by (simp add: CatchF_envelope_wrong abort_value_Inr)
qed

subsection \<open>Elevating and catching\<close>




subsection \<open>A cause of the wrong type\<close>

text \<open>
  Claim C3, as the code has it. When the cause of a recovered envelope does not pass the
  type assertion to \<^verbatim>\<open>T\<close>, both \<^verbatim>\<open>Catch[T]\<close> and \<^verbatim>\<open>CatchF[T]\<close> panic and the
  variables are as before. When the \<^verbatim>\<open>Error\<close> method of the cause returns, the panic
  value is the string \<^verbatim>\<open>"try: caught error of wrong type: "\<close> followed by the text of
  the cause, and since it is no envelope, \<^verbatim>\<open>r\<close>, and with it a deferred \<^verbatim>\<open>Catch\<close>,
  \<^verbatim>\<open>CatchF\<close> or \<^verbatim>\<open>F\<close> further out, raises it again.
\<close>

theorem Catch_wrong_type_panics:
  assumes "type_assert (Some (error w)) T = None"
  shows "Catch T errptr (Some (AnErr (Env w))) st = Panic (abort_value w) (caught w st)
   \<and> CatchF T errptr fn (Some (AnErr (Env w))) st = Panic (abort_value w) (caught w st)
   \<and> vars (caught w st) = vars st
   \<and> (errval_Error (error w) = Inr s \<longrightarrow>
        abort_value w = AString (''try: caught error of wrong type: '' @ s)
        \<and> r (Some (abort_value w)) k st' = Panic (abort_value w) st'
        \<and> defer_call (Catch T' errptr') (Panic (abort_value w) st') = Panic (abort_value w) st'
        \<and> defer_call (CatchF T' errptr' fn') (Panic (abort_value w) st') = Panic (abort_value w) st'
        \<and> defer_call (F sink) (Panic (abort_value w) st') = Panic (abort_value w) st')"
  using assms
  by (simp add: Catch_fails_check CatchF_fails_check vars_caught abort_value_Inr
      r_foreign Catch_foreign CatchF_foreign F_foreign)


theorem Catch_wrong_type_panics_witness:
  "type_assert (Some (error demo_envelope)) (Concrete ''*fs.PathError'') = None
   \<and> errval_Error (error demo_envelope) = Inr ''Err1''
   \<and> Catch (Concrete ''*fs.PathError'') (Some 0) (Some (AnErr (Env demo_envelope))) start
       = Panic (AString ''try: caught error of wrong type: Err1'') (caught demo_envelope start)
   \<and> vars (caught demo_envelope start) 0 = None
   \<and> defer_call (Catch error_iface None) (Panic (AString ''try: caught error of wrong type: Err1'') start)
       = Panic (AString ''try: caught error of wrong type: Err1'') start"
proof -
  have h: "type_assert (Some (error demo_envelope)) (Concrete ''*fs.PathError'') = None"
    by (simp add: demo_envelope_def Err1_def)
  have v: "vars start 0 = None"
    by (simp add: start_def)
  note c = Catch_wrong_type_panics [OF h, where errptr = "Some 0" and st = start
      and fn = "follow_up 0" and k = "\<lambda>w. Return ()" and st' = start and T' = error_iface
      and errptr' = None and fn' = "follow_up 0" and sink = "\<lambda>args. Return ()" and s = "''Err1''"]
  have 1: "Catch (Concrete ''*fs.PathError'') (Some 0) (Some (AnErr (Env demo_envelope))) start
      = Panic (abort_value demo_envelope) (caught demo_envelope start)"
    using c by (rule conjunct1)
  have 2: "vars (caught demo_envelope start) = vars start"
    using c by (elim conjE)
  have 3: "vars (caught demo_envelope start) 0 = None"
    by (simp only: 2 v)
  have "errval_Error (error demo_envelope) = Inr ''Err1'' \<longrightarrow>
        abort_value demo_envelope = AString (''try: caught error of wrong type: '' @ ''Err1'')
        \<and> r (Some (abort_value demo_envelope)) (\<lambda>w. Return ()) start = Panic (abort_value demo_envelope) start
        \<and> defer_call (Catch error_iface None) (Panic (abort_value demo_envelope) start) = Panic (abort_value demo_envelope) start
        \<and> defer_call (CatchF error_iface None (follow_up 0)) (Panic (abort_value demo_envelope) start) = Panic (abort_value demo_envelope) start
        \<and> defer_call (F (\<lambda>args. Return ())) (Panic (abort_value demo_envelope) start) = Panic (abort_value demo_envelope) start"
    using c by (elim conjE)
  with Err1_text have 4: "abort_value demo_envelope = AString (''try: caught error of wrong type: '' @ ''Err1'')"
    and 5: "defer_call (Catch error_iface None) (Panic (abort_value demo_envelope) start) = Panic (abort_value demo_envelope) start"
    by blast+
  have 6: "abort_value demo_envelope = AString ''try: caught error of wrong type: Err1''"
    using 4 by simp
  show ?thesis
    using 5 unfolding 6 by (simp only: h 1 3 6 Err1_text simp_thms)
qed

text \<open>
  That the panic always carries the message fails for a cause whose \<^verbatim>\<open>Error\<close> method
  panics: the catch then unwinds with the run-time error, which has no text of the cause.
\<close>

theorem mismatch_abort_has_no_message:
  "type_assert (Some (error nil_envelope)) (Concrete ''*errors.errorString'') = None
   \<and> Catch (Concrete ''*errors.errorString'') (Some 0) (Some (AnErr (Env nil_envelope))) start
       = Panic nil_dereference start
   \<and> CatchF (Concrete ''*errors.errorString'') (Some 0) (follow_up 0) (Some (AnErr (Env nil_envelope))) start
       = Panic nil_dereference start
   \<and> nil_dereference
       = AnErr (Foreign ''runtime.errorString'' 0
           (Returns ''runtime error: invalid memory address or nil pointer dereference''))"
proof -
  have "errval_Error (error nil_envelope) = Inl nil_dereference"
    by (simp add: nil_envelope_def nil_PathError_panics)
  then show ?thesis
    by (simp add: Catch_Error_panics CatchF_Error_panics)
      (simp add: nil_envelope_def nil_PathError_def nil_dereference_def runtime_error_def)
qed

lemma log_error_returns:
  "errval_Error x = Inr s \<Longrightarrow> log_error x st = Return () (slog_Log LevelError s st)"
  by (simp add: log_error_def)

lemma log_error_panics: "errval_Error x = Inl v \<Longrightarrow> log_error x st = Panic v st"
  by (simp add: log_error_def)

lemma Equal_unfold:
  "go_eq a b = Inr same \<Longrightarrow>
   Equal go_eq fmtv a b stk st =
     (if same then Return () st
      else case fmt_Errorf (''try: not equal: '' @ fmtv a @ '' != '' @ fmtv b) st of
             (x, st') \<Rightarrow> E (Some x) stk st')"
  by (simp add: Equal_def E_Some e_captures and_then_def split: prod.split)

lemma NotEqual_unfold:
  "go_eq a b = Inr same \<Longrightarrow>
   NotEqual go_eq fmtv a b stk st =
     (if \<not> same then Return () st
      else case fmt_Errorf (''try: equal: '' @ fmtv a @ '' == '' @ fmtv b) st of
             (x, st') \<Rightarrow> E (Some x) stk st')"
  by (simp add: NotEqual_def E_Some e_captures and_then_def split: prod.split)

lemma Zero_unfold:
  "go_eq a zero = Inr same \<Longrightarrow>
   Zero go_eq fmtv zero a stk st =
     (if same then Return () st
      else case fmt_Errorf (''try: zero: '' @ fmtv a @ '' == '' @ fmtv zero) st of
             (x, st') \<Rightarrow> E (Some x) stk st')"
  by (simp add: Zero_def E_Some e_captures and_then_def split: prod.split)

lemma NotZero_unfold:
  "go_eq a zero = Inr same \<Longrightarrow>
   NotZero go_eq fmtv zero a stk st =
     (if \<not> same then Return () st
      else case fmt_Errorf (''try: zero: '' @ fmtv a @ '' == '' @ fmtv zero) st of
             (x, st') \<Rightarrow> E (Some x) stk st')"
  by (simp add: NotZero_def E_Some e_captures and_then_def split: prod.split)

lemma fmt_Errorf_text: "errval_Error (fst (fmt_Errorf s st)) = Inr s"
  by (simp add: fmt_Errorf_def)

lemma Catch_generated:
  "defer_call (Catch error_iface (Some p)) (E (Some (fst (fmt_Errorf s st))) stk st')
     = Return () ((caught (WrapError (fst (fmt_Errorf s st)) (call_site stk)) st')
         \<lparr>vars := (vars st')(p := Some (fst (fmt_Errorf s st)))\<rparr>)"
  by (rule Catch_E_slot [OF fmt_Errorf_text])


subsection \<open>Logging\<close>

text \<open>
  Claim C7, as the code has it. With a nil error, or a non-nil error whose \<^verbatim>\<open>Error\<close>
  method returns, each of \<^verbatim>\<open>L\<close>, \<^verbatim>\<open>L1\<close>, ..., \<^verbatim>\<open>L4\<close> returns normally with the values
  it was given; with such a non-nil error it hands the default logger one record of level
  error whose message is the error's text, and changes nothing else.
\<close>

theorem L_returns_values_and_logs:
  "L None st = Return () st
   \<and> L1 a None st = Return a st
   \<and> L2 a b None st = Return (a, b) st
   \<and> L3 a b c None st = Return (a, b, c) st
   \<and> L4 a b c d None st = Return (a, b, c, d) st
   \<and> (errval_Error x = Inr s \<longrightarrow>
        L (Some x) st = Return () (slog_Log LevelError s st)
        \<and> L1 a (Some x) st = Return a (slog_Log LevelError s st)
        \<and> L2 a b (Some x) st = Return (a, b) (slog_Log LevelError s st)
        \<and> L3 a b c (Some x) st = Return (a, b, c) (slog_Log LevelError s st)
        \<and> L4 a b c d (Some x) st = Return (a, b, c, d) (slog_Log LevelError s st)
        \<and> slog_Log LevelError s st = st\<lparr>logs := logs st @ [(LevelError, s)]\<rparr>)"
  by (simp add: L_def L1_def L2_def L3_def L4_def and_then_def log_error_returns slog_Log_def)

theorem L_returns_values_and_logs_witness:
  "errval_Error Err1 = Inr ''Err1''
   \<and> L1 (5 :: nat) (Some Err1) start = Return 5 (start\<lparr>logs := [(LevelError, ''Err1'')]\<rparr>)
   \<and> L1 (5 :: nat) None start = Return 5 start"
proof -
  have h: "errval_Error Err1 = Inr ''Err1''"
    by (simp add: Err1_def)
  note c = L_returns_values_and_logs [where a = "5 :: nat" and x = Err1 and st = start
      and b = "()" and c = "()" and d = "()" and s = "''Err1''"]
  have 1: "L1 (5 :: nat) None start = Return 5 start"
    using c by (elim conjE)
  have 2: "L1 (5 :: nat) (Some Err1) start = Return 5 (slog_Log LevelError ''Err1'' start)"
    and 3: "slog_Log LevelError ''Err1'' start = start\<lparr>logs := logs start @ [(LevelError, ''Err1'')]\<rparr>"
    using c h by blast+
  have 4: "logs start = []"
    by (simp add: start_def)
  show ?thesis
    unfolding 1 2 3 by (simp add: 4 h)
qed

text \<open>
  For all inputs the statement fails: the functions call \<^verbatim>\<open>err.Error()\<close> unguarded, so
  with a nil \<^verbatim>\<open>*fs.PathError\<close> held in an \<^verbatim>\<open>error\<close> they panic and return nothing.
\<close>

theorem L_panics_with_Error:
  "errval_Error nil_PathError = Inl nil_dereference
   \<and> L (Some nil_PathError) start = Panic nil_dereference start
   \<and> L1 (5 :: nat) (Some nil_PathError) start = Panic nil_dereference start
   \<and> L4 (1 :: nat) (2 :: nat) (3 :: nat) (4 :: nat) (Some nil_PathError) start = Panic nil_dereference start"
  by (simp add: L_def L1_def L4_def and_then_def log_error_panics nil_PathError_panics)

subsection \<open>Assertions\<close>

text \<open>
  Claim C8, as the code has it. When the comparison \<^verbatim>\<open>a == b\<close> of Go does not panic,
  \<^verbatim>\<open>Equal\<close> returns normally with the state as it was when it yields true and otherwise
  does what \<^verbatim>\<open>E\<close> does, called from the same place with the error that \<^verbatim>\<open>fmt.Errorf\<close>
  generated; likewise \<^verbatim>\<open>NotEqual\<close> when it yields false, \<^verbatim>\<open>Zero\<close> when \<open>a\<close> compares
  equal to the zero value and \<^verbatim>\<open>NotZero\<close> when it does not. What \<^verbatim>\<open>E\<close> does with the
  generated error is to panic with an envelope of it, which a deferred \<^verbatim>\<open>Catch\<close> stores
  and returns from.
\<close>

theorem assertions_elevate_when_violated:
  "(go_eq a b = Inr same \<longrightarrow>
      Equal go_eq fmtv a b stk st =
        (if same then Return () st
         else case fmt_Errorf (''try: not equal: '' @ fmtv a @ '' != '' @ fmtv b) st of
                (x, st') \<Rightarrow> E (Some x) stk st')
      \<and> NotEqual go_eq fmtv a b stk st =
        (if \<not> same then Return () st
         else case fmt_Errorf (''try: equal: '' @ fmtv a @ '' == '' @ fmtv b) st of
                (x, st') \<Rightarrow> E (Some x) stk st'))
   \<and> (go_eq a zero = Inr is_zero \<longrightarrow>
      Zero go_eq fmtv zero a stk st =
        (if is_zero then Return () st
         else case fmt_Errorf (''try: zero: '' @ fmtv a @ '' == '' @ fmtv zero) st of
                (x, st') \<Rightarrow> E (Some x) stk st')
      \<and> NotZero go_eq fmtv zero a stk st =
        (if \<not> is_zero then Return () st
         else case fmt_Errorf (''try: zero: '' @ fmtv a @ '' == '' @ fmtv zero) st of
                (x, st') \<Rightarrow> E (Some x) stk st'))
   \<and> E (Some (fst (fmt_Errorf s st))) stk st'
       = Panic (AnErr (Env (WrapError (fst (fmt_Errorf s st)) (call_site stk)))) st'
   \<and> defer_call (Catch error_iface (Some p)) (E (Some (fst (fmt_Errorf s st))) stk st')
       = Return () ((caught (WrapError (fst (fmt_Errorf s st)) (call_site stk)) st')
           \<lparr>vars := (vars st')(p := Some (fst (fmt_Errorf s st)))\<rparr>)"
  by (intro conjI impI Equal_unfold NotEqual_unfold Zero_unfold NotZero_unfold E_Some Catch_generated)

text \<open>
  At \<^verbatim>\<open>int\<close>, \<^verbatim>\<open>Equal(3, 3)\<close> returns and \<^verbatim>\<open>Equal(3, 4)\<close> elevates; at \<^verbatim>\<open>any\<close>,
  \<^verbatim>\<open>Equal(NaN, NaN)\<close> elevates, since a NaN differs from itself.
\<close>

theorem assertions_elevate_when_violated_witness:
  "int_eq 3 3 = Inr True
   \<and> Equal int_eq Itoa 3 3 [main_frame ''main.main'' 20] start = Return () start
   \<and> int_eq 3 4 = Inr False
   \<and> Equal int_eq Itoa 3 4 [main_frame ''main.main'' 20] start
       = Panic (AnErr (Env (WrapError (Foreign ''*errors.errorString'' 0 (Returns ''try: not equal: 3 != 4''))
                               (main_frame ''main.main'' 20))))
           (start\<lparr>next_id := 1\<rparr>)
   \<and> any_eq DNaN DNaN = Inr False
   \<and> location_of (Equal any_eq any_fmt DNaN DNaN [main_frame ''main.main'' 20] start)
       = Some (main_frame ''main.main'' 20)"
proof -
  note c = assertions_elevate_when_violated [where go_eq = int_eq and fmtv = Itoa and a = "3 :: int"
      and stk = "[main_frame ''main.main'' 20]" and st = start and s = "[]" and st' = start
      and p = 0 and zero = 0 and is_zero = False]
  note d = assertions_elevate_when_violated [where go_eq = any_eq and fmtv = any_fmt and a = DNaN and b = DNaN
      and same = False and stk = "[main_frame ''main.main'' 20]" and st = start and s = "[]"
      and st' = start and p = 0 and zero = "DInt 0" and is_zero = False]
  have e3: "int_eq 3 3 = Inr True" and e4: "int_eq 3 4 = Inr False"
    by (simp_all add: int_eq_def)
  have en: "any_eq DNaN DNaN = Inr False"
    by simp
  have 1: "Equal int_eq Itoa 3 3 [main_frame ''main.main'' 20] start = Return () start"
    using c [where b = 3 and same = True] e3 by simp
  have i: "Itoa 3 = ''3''" "Itoa 4 = ''4''"
    by code_simp+
  have n: "next_id start = 0"
    by (simp add: start_def)
  have 2: "Equal int_eq Itoa 3 4 [main_frame ''main.main'' 20] start
       = Panic (AnErr (Env (WrapError (Foreign ''*errors.errorString'' 0 (Returns ''try: not equal: 3 != 4''))
                               (main_frame ''main.main'' 20))))
           (start\<lparr>next_id := 1\<rparr>)"
    using c [where b = 4 and same = False] e4
    by (simp add: fmt_Errorf_def i n E_Some call_site_Cons)
  have 3: "location_of (Equal any_eq any_fmt DNaN DNaN [main_frame ''main.main'' 20] start)
       = Some (main_frame ''main.main'' 20)"
    using d en by (simp add: fmt_Errorf_def E_Some call_site_Cons)
  show ?thesis
    using e3 e4 en 1 2 3 by simp
qed

text \<open>
  Without the condition the statement fails: comparing two \<^verbatim>\<open>[]int\<close> held in \<^verbatim>\<open>any\<close>
  panics with a run-time error, which is neither a return nor an elevation, and a deferred
  \<^verbatim>\<open>Catch\<close> raises it again.
\<close>

theorem assertion_panics_on_uncomparable:
  "any_eq (DInts [1]) (DInts [1]) = Inl (runtime_error ''comparing uncomparable type []int'')
   \<and> Equal any_eq any_fmt (DInts [1]) (DInts [1]) [main_frame ''main.main'' 20] start
       = Panic (runtime_error ''comparing uncomparable type []int'') start
   \<and> NotEqual any_eq any_fmt (DInts [1]) (DInts [1]) [main_frame ''main.main'' 20] start
       = Panic (runtime_error ''comparing uncomparable type []int'') start
   \<and> \<not> is_envelope (runtime_error ''comparing uncomparable type []int'')
   \<and> defer_call (Catch error_iface (Some 0))
         (Equal any_eq any_fmt (DInts [1]) (DInts [1]) [main_frame ''main.main'' 20] start)
       = Panic (runtime_error ''comparing uncomparable type []int'') start"
proof -
  have f: "\<not> is_envelope (runtime_error ''comparing uncomparable type []int'')"
    by (simp add: runtime_error_def)
  show ?thesis
    by (simp add: Equal_def NotEqual_def and_then_def Catch_foreign [OF f] f)
qed

subsection \<open>Locations\<close>




subsection \<open>The order of assignment and follow-up\<close>




end
